theory Spec2Isabelle
  imports Complex_Main
begin

section \<open>JavaScript numbers in exact arithmetic\<close>

text \<open>
  The calculator computes with JavaScript numbers. They are modelled as the real numbers
  extended by the three non-finite values of the language: every operation is the exact
  real operation where the result is a real number, and follows ECMAScript where it is
  not (division by zero, logarithm of a non-positive number, a negative base with a
  fractional exponent, arithmetic on infinities and on NaN). Rounding, overflow and the
  sign of zero are not modelled.
\<close>

datatype jsnum = Fin real | PInf | NInf | NaN

fun isFinite :: "jsnum \<Rightarrow> bool" where
  "isFinite (Fin x) = True"
| "isFinite PInf = False"
| "isFinite NInf = False"
| "isFinite NaN = False"

fun isNaN :: "jsnum \<Rightarrow> bool" where
  "isNaN NaN = True"
| "isNaN (Fin x) = False"
| "isNaN PInf = False"
| "isNaN NInf = False"

text \<open>The infinity with the sign of a real number; zero counts as positive zero.\<close>

definition inf_of_sign :: "real \<Rightarrow> jsnum" where
  "inf_of_sign a = (if a < 0 then NInf else PInf)"

instantiation jsnum :: "{plus, minus, uminus, times, inverse, abs, ord}"
begin

fun uminus_jsnum :: "jsnum \<Rightarrow> jsnum" where
  "uminus_jsnum (Fin a) = Fin (- a)"
| "uminus_jsnum PInf = NInf"
| "uminus_jsnum NInf = PInf"
| "uminus_jsnum NaN = NaN"

fun plus_jsnum :: "jsnum \<Rightarrow> jsnum \<Rightarrow> jsnum" where
  "plus_jsnum NaN y = NaN"
| "plus_jsnum x NaN = NaN"
| "plus_jsnum (Fin a) (Fin b) = Fin (a + b)"
| "plus_jsnum PInf NInf = NaN"
| "plus_jsnum NInf PInf = NaN"
| "plus_jsnum PInf y = PInf"
| "plus_jsnum x PInf = PInf"
| "plus_jsnum NInf y = NInf"
| "plus_jsnum x NInf = NInf"

definition minus_jsnum :: "jsnum \<Rightarrow> jsnum \<Rightarrow> jsnum" where
  "minus_jsnum x y = x + (- y)"

fun times_jsnum :: "jsnum \<Rightarrow> jsnum \<Rightarrow> jsnum" where
  "times_jsnum NaN y = NaN"
| "times_jsnum x NaN = NaN"
| "times_jsnum (Fin a) (Fin b) = Fin (a * b)"
| "times_jsnum (Fin a) PInf = (if a = 0 then NaN else inf_of_sign a)"
| "times_jsnum (Fin a) NInf = (if a = 0 then NaN else inf_of_sign (- a))"
| "times_jsnum PInf (Fin b) = (if b = 0 then NaN else inf_of_sign b)"
| "times_jsnum NInf (Fin b) = (if b = 0 then NaN else inf_of_sign (- b))"
| "times_jsnum PInf PInf = PInf"
| "times_jsnum PInf NInf = NInf"
| "times_jsnum NInf PInf = NInf"
| "times_jsnum NInf NInf = PInf"

fun divide_jsnum :: "jsnum \<Rightarrow> jsnum \<Rightarrow> jsnum" where
  "divide_jsnum NaN y = NaN"
| "divide_jsnum x NaN = NaN"
| "divide_jsnum (Fin a) (Fin b) =
     (if b = 0 then (if a = 0 then NaN else inf_of_sign a) else Fin (a / b))"
| "divide_jsnum (Fin a) PInf = Fin 0"
| "divide_jsnum (Fin a) NInf = Fin 0"
| "divide_jsnum PInf (Fin b) = inf_of_sign b"
| "divide_jsnum NInf (Fin b) = (if b < 0 then PInf else NInf)"
| "divide_jsnum PInf PInf = NaN"
| "divide_jsnum PInf NInf = NaN"
| "divide_jsnum NInf PInf = NaN"
| "divide_jsnum NInf NInf = NaN"

fun inverse_jsnum :: "jsnum \<Rightarrow> jsnum" where
  "inverse_jsnum (Fin a) = (if a = 0 then PInf else Fin (1 / a))"
| "inverse_jsnum PInf = Fin 0"
| "inverse_jsnum NInf = Fin 0"
| "inverse_jsnum NaN = NaN"

fun abs_jsnum :: "jsnum \<Rightarrow> jsnum" where
  "abs_jsnum (Fin a) = Fin \<bar>a\<bar>"
| "abs_jsnum PInf = PInf"
| "abs_jsnum NInf = PInf"
| "abs_jsnum NaN = NaN"

text \<open>Every comparison with NaN is false.\<close>

fun less_jsnum :: "jsnum \<Rightarrow> jsnum \<Rightarrow> bool" where
  "less_jsnum NaN y = False"
| "less_jsnum x NaN = False"
| "less_jsnum (Fin a) (Fin b) = (a < b)"
| "less_jsnum x NInf = False"
| "less_jsnum PInf y = False"
| "less_jsnum NInf y = True"
| "less_jsnum x PInf = True"

fun less_eq_jsnum :: "jsnum \<Rightarrow> jsnum \<Rightarrow> bool" where
  "less_eq_jsnum NaN y = False"
| "less_eq_jsnum x NaN = False"
| "less_eq_jsnum (Fin a) (Fin b) = (a \<le> b)"
| "less_eq_jsnum NInf y = True"
| "less_eq_jsnum x PInf = True"
| "less_eq_jsnum x NInf = False"
| "less_eq_jsnum PInf y = False"

instance ..

end

text \<open>Strict equality of two numbers: NaN is equal to nothing, itself included.\<close>

fun num_eq :: "jsnum \<Rightarrow> jsnum \<Rightarrow> bool" where
  "num_eq NaN y = False"
| "num_eq x NaN = False"
| "num_eq x y = (x = y)"

text \<open>A real number that is an integer.\<close>

definition is_int :: "real \<Rightarrow> bool" where
  "is_int y = (of_int \<lfloor>y\<rfloor> = y)"

definition is_odd_int :: "real \<Rightarrow> bool" where
  "is_odd_int y = (is_int y \<and> odd \<lfloor>y\<rfloor>)"

text \<open>
  \<open>Math.pow\<close> (ECMAScript Number::exponentiate). On a finite non-zero base and a finite
  non-zero exponent the result is the real power: through integer powers when the
  exponent is an integer, through \<open>powr\<close> on a positive base otherwise.
\<close>

fun Math_pow :: "jsnum \<Rightarrow> jsnum \<Rightarrow> jsnum" where
  "Math_pow x NaN = NaN"
| "Math_pow NaN (Fin y) = (if y = 0 then Fin 1 else NaN)"
| "Math_pow NaN y = NaN"
| "Math_pow PInf (Fin y) = (if y = 0 then Fin 1 else if 0 < y then PInf else Fin 0)"
| "Math_pow PInf PInf = PInf"
| "Math_pow PInf NInf = Fin 0"
| "Math_pow NInf (Fin y) =
     (if y = 0 then Fin 1
      else if 0 < y then (if is_odd_int y then NInf else PInf)
      else Fin 0)"
| "Math_pow NInf PInf = PInf"
| "Math_pow NInf NInf = Fin 0"
| "Math_pow (Fin x) PInf =
     (if 1 < \<bar>x\<bar> then PInf else if \<bar>x\<bar> = 1 then NaN else Fin 0)"
| "Math_pow (Fin x) NInf =
     (if 1 < \<bar>x\<bar> then Fin 0 else if \<bar>x\<bar> = 1 then NaN else PInf)"
| "Math_pow (Fin x) (Fin y) =
     (if y = 0 then Fin 1
      else if x = 0 then (if 0 < y then Fin 0 else PInf)
      else if is_int y then Fin (x powi \<lfloor>y\<rfloor>)
      else if x < 0 then NaN
      else Fin (x powr y))"

text \<open>\<open>Math.log\<close>: the natural logarithm, NaN below zero and minus infinity at zero.\<close>

fun Math_log :: "jsnum \<Rightarrow> jsnum" where
  "Math_log NaN = NaN"
| "Math_log PInf = PInf"
| "Math_log NInf = NaN"
| "Math_log (Fin x) = (if x < 0 then NaN else if x = 0 then NInf else Fin (ln x))"

section \<open>TVM math\<close>

text \<open>\<open>getPeriodicRate\<close>: the nominal annual rate in percent to the rate per payment period.\<close>

definition getPeriodicRate :: "jsnum \<Rightarrow> jsnum \<Rightarrow> jsnum \<Rightarrow> jsnum" where
  "getPeriodicRate nominalRate cy py =
     (let r = nominalRate / Fin 100
      in if num_eq cy py then r / py
         else Math_pow (Fin 1 + r / cy) (cy / py) - Fin 1)"

definition annuityFactor :: "jsnum \<Rightarrow> jsnum \<Rightarrow> bool \<Rightarrow> jsnum" where
  "annuityFactor i n isBegin =
     (if \<bar>i\<bar> < Fin (1 / 10 ^ 10) then n
      else let factor = (Math_pow (Fin 1 + i) n - Fin 1) / i
           in if isBegin then factor * (Fin 1 + i) else factor)"

definition solveFV :: "jsnum \<Rightarrow> jsnum \<Rightarrow> jsnum \<Rightarrow> jsnum \<Rightarrow> bool \<Rightarrow> jsnum" where
  "solveFV n i pv pmt isBegin =
     (let compoundFactor = Math_pow (Fin 1 + i) n;
          af = annuityFactor i n isBegin
      in pv * compoundFactor + pmt * af)"

definition solvePV :: "jsnum \<Rightarrow> jsnum \<Rightarrow> jsnum \<Rightarrow> jsnum \<Rightarrow> bool \<Rightarrow> jsnum" where
  "solvePV n i pmt fv isBegin =
     (let compoundFactor = Math_pow (Fin 1 + i) n;
          af = annuityFactor i n isBegin
      in (fv - pmt * af) / compoundFactor)"

definition solvePMT :: "jsnum \<Rightarrow> jsnum \<Rightarrow> jsnum \<Rightarrow> jsnum \<Rightarrow> bool \<Rightarrow> jsnum" where
  "solvePMT n i pv fv isBegin =
     (let compoundFactor = Math_pow (Fin 1 + i) n;
          af = annuityFactor i n isBegin
      in if \<bar>af\<bar> < Fin (1 / 10 ^ 15) then NaN
         else (fv - pv * compoundFactor) / af)"

section \<open>Amortization\<close>

record amort_result =
  principal :: jsnum
  interest :: jsnum
  balance :: jsnum

text \<open>
  The loop of \<open>calculateAmort\<close>: \<open>period\<close> runs from its start value to \<open>amortP2\<close>;
  the running balance and the two totals are the loop's variables.
\<close>

function amort_loop ::
  "jsnum \<Rightarrow> jsnum \<Rightarrow> bool \<Rightarrow> nat \<Rightarrow> nat \<Rightarrow> nat \<Rightarrow> jsnum \<Rightarrow> jsnum \<Rightarrow> jsnum \<Rightarrow> amort_result"
where
  "amort_loop i pmt isBegin amortP1 amortP2 period bal totalPrincipal totalInterest =
     (if period \<le> amortP2 then
        (if isBegin then
           (let principalPayment = - pmt;
                bal1 = bal + principalPayment;
                interestPayment = bal1 * i;
                bal2 = bal1 + interestPayment
            in if amortP1 \<le> period
               then amort_loop i pmt isBegin amortP1 amortP2 (Suc period) bal2
                      (totalPrincipal + principalPayment) (totalInterest + interestPayment)
               else amort_loop i pmt isBegin amortP1 amortP2 (Suc period) bal2
                      totalPrincipal totalInterest)
         else
           (let interestPayment = bal * i;
                principalPayment = - pmt - interestPayment;
                bal1 = bal + (interestPayment + pmt)
            in if amortP1 \<le> period
               then amort_loop i pmt isBegin amortP1 amortP2 (Suc period) bal1
                      (totalPrincipal + principalPayment) (totalInterest + interestPayment)
               else amort_loop i pmt isBegin amortP1 amortP2 (Suc period) bal1
                      totalPrincipal totalInterest))
      else \<lparr>principal = totalPrincipal, interest = totalInterest, balance = bal\<rparr>)"
  by pat_completeness auto
termination
  by (relation "measure (\<lambda>(i, pmt, isBegin, amortP1, amortP2, period, rest). Suc amortP2 - period)")
    auto

text \<open>
  The simulation of \<open>calculateAmort\<close> for a given periodic rate: the balance starts at
  \<open>pv\<close>, the totals at zero, the period at 1.
\<close>

definition amortize :: "jsnum \<Rightarrow> jsnum \<Rightarrow> jsnum \<Rightarrow> nat \<Rightarrow> nat \<Rightarrow> bool \<Rightarrow> amort_result" where
  "amortize i pv pmt amortP1 amortP2 isBegin =
     amort_loop i pmt isBegin amortP1 amortP2 1 pv (Fin 0) (Fin 0)"

declare amort_loop.simps [simp del]

section \<open>Solving for N\<close>

text \<open>
  The residual of \<open>solveNNumeric\<close>: \<open>fv - pv\<close> at a non-positive \<open>n\<close>, the TVM
  equation otherwise.
\<close>

definition solveN_f :: "jsnum \<Rightarrow> jsnum \<Rightarrow> jsnum \<Rightarrow> jsnum \<Rightarrow> bool \<Rightarrow> jsnum \<Rightarrow> jsnum" where
  "solveN_f i pv pmt fv isBegin n =
     (if n \<le> Fin 0 then fv - pv
      else let compoundFactor = Math_pow (Fin 1 + i) n
           in fv - pv * compoundFactor - pmt * annuityFactor i n isBegin)"

text \<open>
  The search for a better upper bound: \<open>test\<close> takes the values 1, 10, 100, 1000 and
  10000 of the loop \<open>for (test = 1; test <= 10000; test *= 10)\<close>, and the first one
  whose residual has the sign opposite to \<open>fLo\<close> becomes \<open>hi\<close>.
\<close>

fun solveN_probe :: "(jsnum \<Rightarrow> jsnum) \<Rightarrow> jsnum \<Rightarrow> jsnum \<Rightarrow> jsnum list \<Rightarrow> jsnum" where
  "solveN_probe f fLo hi [] = hi"
| "solveN_probe f fLo hi (test # tests) =
     (if f test * fLo < Fin 0 then test else solveN_probe f fLo hi tests)"

text \<open>The bisection loop of \<open>solveNNumeric\<close>; the first argument counts the iterations left.\<close>

fun solveN_bisect :: "(jsnum \<Rightarrow> jsnum) \<Rightarrow> nat \<Rightarrow> jsnum \<Rightarrow> jsnum \<Rightarrow> jsnum" where
  "solveN_bisect f 0 lo hi = (lo + hi) / Fin 2"
| "solveN_bisect f (Suc k) lo hi =
     (let mid = (lo + hi) / Fin 2;
          fMid = f mid
      in if \<bar>fMid\<bar> < Fin (1 / 10 ^ 10) then mid
         else if f lo * fMid < Fin 0 then solveN_bisect f k lo mid
         else solveN_bisect f k mid hi)"

definition solveNNumeric :: "jsnum \<Rightarrow> jsnum \<Rightarrow> jsnum \<Rightarrow> jsnum \<Rightarrow> bool \<Rightarrow> jsnum" where
  "solveNNumeric i pv pmt fv isBegin =
     (let f = solveN_f i pv pmt fv isBegin;
          lo = Fin (1 / 100);
          hi = Fin 1000;
          fLo = f lo;
          fHi = f hi;
          hi = (if Fin 0 < fLo * fHi
                then solveN_probe f fLo hi [Fin 1, Fin 10, Fin 100, Fin 1000, Fin 10000]
                else hi)
      in solveN_bisect f 100 lo hi)"

definition solveN :: "jsnum \<Rightarrow> jsnum \<Rightarrow> jsnum \<Rightarrow> jsnum \<Rightarrow> bool \<Rightarrow> jsnum" where
  "solveN i pv pmt fv isBegin =
     (if \<bar>i\<bar> < Fin (1 / 10 ^ 10) then
        (if \<bar>pmt\<bar> < Fin (1 / 10 ^ 15) then NaN else (fv - pv) / pmt)
      else if \<bar>pmt\<bar> < Fin (1 / 10 ^ 15) then
        (if \<bar>pv\<bar> < Fin (1 / 10 ^ 15) then NaN
         else let ratio = fv / pv
              in if ratio \<le> Fin 0 then NaN
                 else Math_log ratio / Math_log (Fin 1 + i))
      else solveNNumeric i pv pmt fv isBegin)"

section \<open>Solving for I/Y\<close>

text \<open>
  \<open>solveIY\<close> is called with its last three arguments in two different orders, so its
  parameters \<open>isBegin\<close>, \<open>cy\<close> and \<open>py\<close> receive a boolean or a number. They are
  modelled as JavaScript values with the language's truthiness, strict equality and
  conversion to a number.
\<close>

datatype jsval = JNum jsnum | JBool bool

fun truthy :: "jsval \<Rightarrow> bool" where
  "truthy (JBool b) = b"
| "truthy (JNum (Fin x)) = (x \<noteq> 0)"
| "truthy (JNum NaN) = False"
| "truthy (JNum PInf) = True"
| "truthy (JNum NInf) = True"

fun toNumber :: "jsval \<Rightarrow> jsnum" where
  "toNumber (JNum x) = x"
| "toNumber (JBool b) = (if b then Fin 1 else Fin 0)"

fun strict_eq :: "jsval \<Rightarrow> jsval \<Rightarrow> bool" where
  "strict_eq (JNum x) (JNum y) = num_eq x y"
| "strict_eq (JBool a) (JBool b) = (a = b)"
| "strict_eq (JNum x) (JBool b) = False"
| "strict_eq (JBool a) (JNum y) = False"

text \<open>The objective function \<open>f\<close> of \<open>solveIY\<close> and its derivative \<open>df\<close>.\<close>

definition solveIY_f :: "jsnum \<Rightarrow> jsnum \<Rightarrow> jsnum \<Rightarrow> jsnum \<Rightarrow> bool \<Rightarrow> jsnum \<Rightarrow> jsnum" where
  "solveIY_f n pv pmt fv isBegin i =
     (let compoundFactor = Math_pow (Fin 1 + i) n;
          af = annuityFactor i n isBegin
      in fv - pv * compoundFactor - pmt * af)"

definition solveIY_df :: "jsnum \<Rightarrow> jsnum \<Rightarrow> jsnum \<Rightarrow> bool \<Rightarrow> jsnum \<Rightarrow> jsnum" where
  "solveIY_df n pv pmt isBegin i =
     (if \<bar>i\<bar> < Fin (1 / 10 ^ 10) then - pv * n - pmt * n * (n + Fin 1) / Fin 2
      else let onePlusI = Fin 1 + i;
               onePlusIN = Math_pow onePlusI n;
               dCompound = n * Math_pow onePlusI (n - Fin 1);
               af = (onePlusIN - Fin 1) / i;
               dAf = (n * Math_pow onePlusI (n - Fin 1) * i - (onePlusIN - Fin 1)) / (i * i);
               dAfBgn = (if isBegin then dAf * onePlusI + af else dAf)
           in - pv * dCompound - pmt * dAfBgn)"

text \<open>
  One Newton step of \<open>solveIY\<close> with its two bounds: a step at or below \<open>-0.99\<close> is
  replaced by half the current rate, a step above 10 by the mean of the current rate and 10.
\<close>

definition solveIY_step :: "jsnum \<Rightarrow> jsnum \<Rightarrow> jsnum \<Rightarrow> jsnum" where
  "solveIY_step i fVal dfVal =
     (let newI = i - fVal / dfVal;
          newI = (if newI \<le> Fin (- (99 / 100)) then i / Fin 2 else newI);
          newI = (if Fin 10 < newI then (i + Fin 10) / Fin 2 else newI)
      in newI)"

text \<open>
  The Newton loop of \<open>solveIY\<close>; the first argument counts the iterations left, and the
  result is the value of \<open>bestI\<close> when the loop ends.
\<close>

fun solveIY_newton ::
  "(jsnum \<Rightarrow> jsnum) \<Rightarrow> (jsnum \<Rightarrow> jsnum) \<Rightarrow> nat \<Rightarrow> jsnum \<Rightarrow> jsnum \<Rightarrow> jsnum \<Rightarrow> jsnum"
where
  "solveIY_newton f df 0 i bestI bestF = bestI"
| "solveIY_newton f df (Suc k) i bestI bestF =
     (let fVal = f i
      in if \<bar>fVal\<bar> < Fin (1 / 10 ^ 10) then i
         else let bestI1 = (if \<bar>fVal\<bar> < bestF then i else bestI);
                  bestF1 = (if \<bar>fVal\<bar> < bestF then \<bar>fVal\<bar> else bestF);
                  dfVal = df i
              in if \<bar>dfVal\<bar> < Fin (1 / 10 ^ 15) then bestI1
                 else let newI = solveIY_step i fVal dfVal
                      in if \<bar>newI - i\<bar> < Fin (1 / 10 ^ 12) then newI
                         else solveIY_newton f df k newI bestI1 bestF1)"

text \<open>
  The search of \<open>bisectionSolveI\<close> for a sign change among the test points; the result
  is the bracket \<open>(lo, hi)\<close> with the residuals \<open>(fLo, fHi)\<close> at its ends.
\<close>

fun bisectionSolveI_probe ::
  "(jsnum \<Rightarrow> jsnum) \<Rightarrow> jsnum list \<Rightarrow> jsnum \<Rightarrow> jsnum \<Rightarrow> jsnum \<Rightarrow> jsnum
     \<Rightarrow> jsnum \<times> jsnum \<times> jsnum \<times> jsnum"
where
  "bisectionSolveI_probe f [] lo hi fLo fHi = (lo, hi, fLo, fHi)"
| "bisectionSolveI_probe f (test # tests) lo hi fLo fHi =
     (if lo < test \<and> test < hi \<and> f test * fLo < Fin 0 then (lo, test, fLo, f test)
      else if lo < test \<and> test < hi \<and> f test * fHi < Fin 0 then (test, hi, f test, fHi)
      else bisectionSolveI_probe f tests lo hi fLo fHi)"

fun bisectionSolveI_loop ::
  "(jsnum \<Rightarrow> jsnum) \<Rightarrow> nat \<Rightarrow> jsnum \<Rightarrow> jsnum \<Rightarrow> jsnum \<Rightarrow> jsnum \<Rightarrow> jsnum"
where
  "bisectionSolveI_loop f 0 lo hi fLo fHi = (lo + hi) / Fin 2"
| "bisectionSolveI_loop f (Suc k) lo hi fLo fHi =
     (let mid = (lo + hi) / Fin 2;
          fMid = f mid
      in if \<bar>fMid\<bar> < Fin (1 / 10 ^ 10) then mid
         else if fLo * fMid < Fin 0 then bisectionSolveI_loop f k lo mid fLo fMid
         else bisectionSolveI_loop f k mid hi fMid fHi)"

definition bisectionSolveI :: "(jsnum \<Rightarrow> jsnum) \<Rightarrow> jsnum \<Rightarrow> jsnum \<Rightarrow> nat \<Rightarrow> jsnum" where
  "bisectionSolveI f lo hi maxIter =
     (let fLo = f lo;
          fHi = f hi;
          (lo, hi, fLo, fHi) =
            (if Fin 0 < fLo * fHi
             then bisectionSolveI_probe f
                    [Fin (- (1 / 2)), Fin 0, Fin (1 / 100), Fin (1 / 10), Fin (1 / 2), Fin 1,
                     Fin (3 / 2)] lo hi fLo fHi
             else (lo, hi, fLo, fHi))
      in bisectionSolveI_loop f maxIter lo hi fLo fHi)"

text \<open>The value of \<open>bestI\<close> after the Newton loop of \<open>solveIY\<close>.\<close>

definition solveIY_newton_best :: "jsnum \<Rightarrow> jsnum \<Rightarrow> jsnum \<Rightarrow> jsnum \<Rightarrow> bool \<Rightarrow> jsnum" where
  "solveIY_newton_best n pv pmt fv isBegin =
     (let f = solveIY_f n pv pmt fv isBegin;
          df = solveIY_df n pv pmt isBegin;
          i = Fin (5 / 100)
      in solveIY_newton f df 50 i i \<bar>f i\<bar>)"

definition solveIY :: "jsnum \<Rightarrow> jsnum \<Rightarrow> jsnum \<Rightarrow> jsnum \<Rightarrow> jsval \<Rightarrow> jsval \<Rightarrow> jsval \<Rightarrow> jsnum" where
  "solveIY n pv pmt fv isBegin cy py =
     (let f = solveIY_f n pv pmt fv (truthy isBegin);
          bestI = solveIY_newton_best n pv pmt fv (truthy isBegin);
          bestI = (if Fin (1 / 10 ^ 6) < \<bar>f bestI\<bar>
                   then bisectionSolveI f (Fin (- (99 / 100))) (Fin 2) 100
                   else bestI);
          nominalRate = (if strict_eq cy py then bestI * toNumber py
                         else toNumber cy
                                * (Math_pow (Fin 1 + bestI) (toNumber py / toNumber cy) - Fin 1))
      in nominalRate * Fin 100)"

section \<open>Cash flows: NPV and IRR\<close>











section \<open>The calculator state and CPT\<close>

datatype tvmvar = VarN | VarIY | VarPV | VarPMT | VarFV

datatype msg_kind = Info | Error | Success

text \<open>
  The part of the global \<open>state\<close> that the computations read and write. A register that
  is \<open>null\<close> is \<open>None\<close>. The entry buffer and the selection are display state and are
  left out; \<open>message\<close> records the last \<open>showMessage\<close>, without the formatted number of
  a success message.
\<close>

record calc_state =
  N :: "jsnum option"
  IY :: "jsnum option"
  PV :: "jsnum option"
  PMT :: "jsnum option"
  FV :: "jsnum option"
  py :: jsnum
  cy :: jsnum
  BGN :: bool
  lastComputed :: "jsnum option"
  lastComputedVar :: "tvmvar option"
  computeArmed :: bool
  rclMode :: bool
  message :: "(msg_kind \<times> string) option"
  amortP1 :: nat
  amortP2 :: nat
  amortResults :: "amort_result option"

text \<open>\<open>state[varName]\<close>, read and written.\<close>

fun getVar :: "calc_state \<Rightarrow> tvmvar \<Rightarrow> jsnum option" where
  "getVar s VarN = N s"
| "getVar s VarIY = IY s"
| "getVar s VarPV = PV s"
| "getVar s VarPMT = PMT s"
| "getVar s VarFV = FV s"

fun setVar :: "tvmvar \<Rightarrow> jsnum option \<Rightarrow> calc_state \<Rightarrow> calc_state" where
  "setVar VarN v s = s\<lparr>N := v\<rparr>"
| "setVar VarIY v s = s\<lparr>IY := v\<rparr>"
| "setVar VarPV v s = s\<lparr>PV := v\<rparr>"
| "setVar VarPMT v s = s\<lparr>PMT := v\<rparr>"
| "setVar VarFV v s = s\<lparr>FV := v\<rparr>"

text \<open>A register used in arithmetic: \<open>null\<close> converts to zero.\<close>

fun toNum :: "jsnum option \<Rightarrow> jsnum" where
  "toNum None = Fin 0"
| "toNum (Some x) = x"

fun label :: "tvmvar \<Rightarrow> string" where
  "label VarN = ''N''"
| "label VarIY = ''I/Y''"
| "label VarPV = ''PV''"
| "label VarPMT = ''PMT''"
| "label VarFV = ''FV''"

definition showMessage :: "string \<Rightarrow> msg_kind \<Rightarrow> calc_state \<Rightarrow> calc_state" where
  "showMessage msg kind s = s\<lparr>message := Some (kind, msg)\<rparr>"

definition clearMessage :: "calc_state \<Rightarrow> calc_state" where
  "clearMessage s = s\<lparr>message := None\<rparr>"

text \<open>
  The \<open>switch\<close> of \<open>computeVariable\<close>. Its I/Y case passes \<open>cy, py, isBegin\<close> to the
  parameters \<open>isBegin, cy, py\<close> of \<open>solveIY\<close>.
\<close>

fun computeVariable_switch :: "tvmvar \<Rightarrow> calc_state \<Rightarrow> jsnum" where
  "computeVariable_switch VarFV s =
     (let i = getPeriodicRate (toNum (IY s)) (cy s) (py s)
      in solveFV (toNum (N s)) i (toNum (PV s)) (toNum (PMT s)) (BGN s))"
| "computeVariable_switch VarPV s =
     (let i = getPeriodicRate (toNum (IY s)) (cy s) (py s)
      in solvePV (toNum (N s)) i (toNum (PMT s)) (toNum (FV s)) (BGN s))"
| "computeVariable_switch VarPMT s =
     (let i = getPeriodicRate (toNum (IY s)) (cy s) (py s)
      in solvePMT (toNum (N s)) i (toNum (PV s)) (toNum (FV s)) (BGN s))"
| "computeVariable_switch VarN s =
     (let i = getPeriodicRate (toNum (IY s)) (cy s) (py s)
      in solveN i (toNum (PV s)) (toNum (PMT s)) (toNum (FV s)) (BGN s))"
| "computeVariable_switch VarIY s =
     solveIY (toNum (N s)) (toNum (PV s)) (toNum (PMT s)) (toNum (FV s))
       (JNum (cy s)) (JNum (py s)) (JBool (BGN s))"

text \<open>
  The page is not part of the state. In the \<open>try\<close> blocks of \<open>compute\<close> and
  \<open>computeVariable\<close> the arithmetic and \<open>formatNumber\<close> cannot throw, and
  \<open>showMessage\<close> writes the element that \<open>clearMessage\<close> has written at the start of
  the call; the one call that can throw is \<open>updateDisplay\<close>, which writes to further
  elements of the page. Whether it completes on a given state is a parameter of the two
  functions: \<open>True\<close> when it returns, \<open>False\<close> when it throws.
\<close>

type_synonym display = "calc_state \<Rightarrow> bool"

text \<open>
  The argument of \<open>computeVariable\<close>: the name of one of the five registers, or any
  other string, for which the \<open>switch\<close> takes its \<open>default\<close> branch.
\<close>

datatype varname = Tvm tvmvar | Other

text \<open>
  \<open>computeVariable\<close>. Its \<open>catch\<close> block writes the original value back into the
  register before it shows the error.
\<close>

definition computeVariable_on :: "display \<Rightarrow> varname \<Rightarrow> calc_state \<Rightarrow> calc_state" where
  "computeVariable_on updateDisplay varName s0 =
     (let s = clearMessage (s0\<lparr>computeArmed := False\<rparr>)
      in if py s \<le> Fin 0 \<or> cy s \<le> Fin 0 then showMessage ''SET P/Y AND C/Y'' Error s
         else case varName of
                Other \<Rightarrow> showMessage ''Invalid variable'' Error s
              | Tvm v \<Rightarrow>
                  (let originalValue = getVar s v;
                       s1 = setVar v None s;
                       result = computeVariable_switch v s1
                   in if \<not> isFinite result
                      then showMessage ''No solution found'' Error (setVar v originalValue s1)
                      else let s2 = showMessage (label v @ '' = '') Success
                                      ((setVar v (Some result) s1)
                                         \<lparr>lastComputed := Some result, lastComputedVar := Some v\<rparr>)
                           in if updateDisplay s2 then s2
                              else showMessage ''Calculation error'' Error
                                     (setVar v originalValue s2)))"

text \<open>The \<open>switch\<close> of \<open>compute\<close>, with \<open>solveIY\<close> called in the order of its signature.\<close>

fun compute_switch :: "tvmvar \<Rightarrow> calc_state \<Rightarrow> jsnum" where
  "compute_switch VarFV s =
     (let i = getPeriodicRate (toNum (IY s)) (cy s) (py s)
      in solveFV (toNum (N s)) i (toNum (PV s)) (toNum (PMT s)) (BGN s))"
| "compute_switch VarPV s =
     (let i = getPeriodicRate (toNum (IY s)) (cy s) (py s)
      in solvePV (toNum (N s)) i (toNum (PMT s)) (toNum (FV s)) (BGN s))"
| "compute_switch VarPMT s =
     (let i = getPeriodicRate (toNum (IY s)) (cy s) (py s)
      in solvePMT (toNum (N s)) i (toNum (PV s)) (toNum (FV s)) (BGN s))"
| "compute_switch VarN s =
     (let i = getPeriodicRate (toNum (IY s)) (cy s) (py s)
      in solveN i (toNum (PV s)) (toNum (PMT s)) (toNum (FV s)) (BGN s))"
| "compute_switch VarIY s =
     solveIY (toNum (N s)) (toNum (PV s)) (toNum (PMT s)) (toNum (FV s))
       (JBool (BGN s)) (JNum (cy s)) (JNum (py s))"

text \<open>The registers that are \<open>null\<close>, in the order of \<open>tvmVars\<close>.\<close>

definition blankVars :: "calc_state \<Rightarrow> tvmvar list" where
  "blankVars s = filter (\<lambda>v. getVar s v = None) [VarN, VarIY, VarPV, VarPMT, VarFV]"

text \<open>
  \<open>compute\<close>. Its \<open>catch\<close> block shows the error and writes nothing back. The arrow
  of the CPT message is written in ASCII.
\<close>

definition compute_on :: "display \<Rightarrow> calc_state \<Rightarrow> calc_state" where
  "compute_on updateDisplay s0 =
     (let s = (clearMessage s0)\<lparr>rclMode := False\<rparr>
      in if py s \<le> Fin 0 \<or> cy s \<le> Fin 0 then showMessage ''SET P/Y AND C/Y'' Error s
         else if length (blankVars s) = 0 then
           (case lastComputedVar s of
              Some v \<Rightarrow> computeVariable_on updateDisplay (Tvm v) s
            | None \<Rightarrow>
                showMessage ''CPT -> PRESS VARIABLE TO SOLVE'' Info (s\<lparr>computeArmed := True\<rparr>))
         else if 1 < length (blankVars s) then
           showMessage ''CLEAR ONE VARIABLE TO SOLVE'' Error s
         else
           (let solveFor = blankVars s ! 0;
                result = compute_switch solveFor s
            in if \<not> isFinite result \<or> isNaN result
               then showMessage ''No solution found'' Error s
               else let s2 = showMessage (label solveFor @ '' = '') Success
                               ((setVar solveFor (Some result) s)
                                  \<lparr>lastComputed := Some result, lastComputedVar := Some solveFor\<rparr>)
                    in if updateDisplay s2 then s2
                       else showMessage ''Calculation error'' Error s2))"

text \<open>
  The two functions on the page as it is served, where every element that
  \<open>updateDisplay\<close> writes exists and the call returns.
\<close>

definition intact :: display where
  "intact s = True"

definition computeVariable :: "tvmvar \<Rightarrow> calc_state \<Rightarrow> calc_state" where
  "computeVariable varName s = computeVariable_on intact (Tvm varName) s"

definition compute :: "calc_state \<Rightarrow> calc_state" where
  "compute s = compute_on intact s"

text \<open>\<open>calculateAmort\<close> on the state: the guards, the periodic rate and the simulation.\<close>

definition calculateAmort :: "calc_state \<Rightarrow> calc_state" where
  "calculateAmort s =
     (if N s = None \<or> IY s = None \<or> PV s = None \<or> PMT s = None
      then s\<lparr>amortResults := None\<rparr>
      else if py s \<le> Fin 0 \<or> cy s \<le> Fin 0 then s\<lparr>amortResults := None\<rparr>
      else let i = getPeriodicRate (toNum (IY s)) (cy s) (py s)
           in s\<lparr>amortResults :=
                  Some (amortize i (toNum (PV s)) (toNum (PMT s)) (amortP1 s) (amortP2 s)
                          (BGN s))\<rparr>)"

section \<open>The specification's formulas\<close>

text \<open>
  The annuity factor as the specification words it: \<open>n\<close> if \<open>|i| < 1e-10\<close>, else
  \<open>((1+i)^n - 1)/i\<close>, multiplied by \<open>(1+i)\<close> when the timing is BEGIN.
\<close>

definition af_spec :: "jsnum \<Rightarrow> jsnum \<Rightarrow> bool \<Rightarrow> jsnum" where
  "af_spec i n begin_timing =
     (if \<bar>i\<bar> < Fin (1 / 10 ^ 10) then n
      else if begin_timing then ((Math_pow (Fin 1 + i) n - Fin 1) / i) * (Fin 1 + i)
      else (Math_pow (Fin 1 + i) n - Fin 1) / i)"

text \<open>
  The same factor on real numbers, with the real power \<open>powr\<close> for \<open>(1+i)^n\<close>.
\<close>

definition af_real :: "real \<Rightarrow> real \<Rightarrow> bool \<Rightarrow> real" where
  "af_real i n begin_timing =
     (if \<bar>i\<bar> < 1 / 10 ^ 10 then n
      else if begin_timing then (((1 + i) powr n - 1) / i) * (1 + i)
      else ((1 + i) powr n - 1) / i)"

text \<open>
  The amortization schedule as the specification words it, period by period. END:
  interest = balance * i, principal = -pmt - interest, balance += interest + pmt.
  BEGIN: principal = -pmt, balance += principal, interest = balance * i,
  balance += interest. \<open>spec_balance k\<close> is the balance after period \<open>k\<close>, starting
  from \<open>pv\<close>; \<open>spec_principal k\<close> and \<open>spec_interest k\<close> are the two portions of
  period \<open>k\<close>.
\<close>

fun spec_balance :: "jsnum \<Rightarrow> jsnum \<Rightarrow> jsnum \<Rightarrow> bool \<Rightarrow> nat \<Rightarrow> jsnum" where
  "spec_balance i pv pmt begin_timing 0 = pv"
| "spec_balance i pv pmt begin_timing (Suc k) =
     (let b = spec_balance i pv pmt begin_timing k
      in if begin_timing then (b + (- pmt)) + (b + (- pmt)) * i
         else b + (b * i + pmt))"

definition spec_principal :: "jsnum \<Rightarrow> jsnum \<Rightarrow> jsnum \<Rightarrow> bool \<Rightarrow> nat \<Rightarrow> jsnum" where
  "spec_principal i pv pmt begin_timing k =
     (if begin_timing then - pmt
      else - pmt - spec_balance i pv pmt begin_timing (k - 1) * i)"

definition spec_interest :: "jsnum \<Rightarrow> jsnum \<Rightarrow> jsnum \<Rightarrow> bool \<Rightarrow> nat \<Rightarrow> jsnum" where
  "spec_interest i pv pmt begin_timing k =
     (if begin_timing then (spec_balance i pv pmt begin_timing (k - 1) + (- pmt)) * i
      else spec_balance i pv pmt begin_timing (k - 1) * i)"


text \<open>The range \<open>(-0.99, 10]\<close> in which the Newton search keeps the rate.\<close>

definition in_range :: "jsnum \<Rightarrow> bool" where
  "in_range x = (Fin (- (99 / 100)) < x \<and> x \<le> Fin 10)"





section \<open>Observations and example inputs\<close>




text \<open>The five TVM registers of a state.\<close>

definition registers :: "calc_state \<Rightarrow> jsnum option \<times> jsnum option \<times> jsnum option \<times> jsnum option \<times> jsnum option" where
  "registers s = (N s, IY s, PV s, PMT s, FV s)"

text \<open>The last message is a success message.\<close>

fun isSuccess :: "(msg_kind \<times> string) option \<Rightarrow> bool" where
  "isSuccess (Some (Success, msg)) = True"
| "isSuccess m = False"

text \<open>The initial value of \<open>state\<close>, and a state with all five registers and both frequencies set.\<close>

definition initial_state :: calc_state where
  "initial_state =
     \<lparr>N = None, IY = None, PV = None, PMT = None, FV = None,
      py = Fin 0, cy = Fin 0, BGN = False,
      lastComputed = None, lastComputedVar = None,
      computeArmed = False, rclMode = False, message = None,
      amortP1 = 1, amortP2 = 1, amortResults = None\<rparr>"

definition loan_state :: calc_state where
  "loan_state =
     initial_state\<lparr>N := Some (Fin 1), IY := Some (Fin 10), PV := Some (Fin (- 100)),
                    PMT := Some (Fin 0), FV := Some (Fin 0), py := Fin 1, cy := Fin 1\<rparr>"

section \<open>CPT on the intact page\<close>

lemma computeVariable_intact:
  "computeVariable varName s0 =
     (let s = clearMessage (s0\<lparr>computeArmed := False\<rparr>)
      in if py s \<le> Fin 0 \<or> cy s \<le> Fin 0 then showMessage ''SET P/Y AND C/Y'' Error s
         else let originalValue = getVar s varName;
                  s1 = setVar varName None s;
                  result = computeVariable_switch varName s1
              in if \<not> isFinite result
                 then showMessage ''No solution found'' Error (setVar varName originalValue s1)
                 else showMessage (label varName @ '' = '') Success
                        ((setVar varName (Some result) s1)
                           \<lparr>lastComputed := Some result, lastComputedVar := Some varName\<rparr>))"
  by (simp add: computeVariable_def computeVariable_on_def intact_def Let_def)

lemma compute_intact:
  "compute s0 =
     (let s = (clearMessage s0)\<lparr>rclMode := False\<rparr>
      in if py s \<le> Fin 0 \<or> cy s \<le> Fin 0 then showMessage ''SET P/Y AND C/Y'' Error s
         else if length (blankVars s) = 0 then
           (case lastComputedVar s of
              Some v \<Rightarrow> computeVariable v s
            | None \<Rightarrow>
                showMessage ''CPT -> PRESS VARIABLE TO SOLVE'' Info (s\<lparr>computeArmed := True\<rparr>))
         else if 1 < length (blankVars s) then
           showMessage ''CLEAR ONE VARIABLE TO SOLVE'' Error s
         else
           (let solveFor = blankVars s ! 0;
                result = compute_switch solveFor s
            in if \<not> isFinite result \<or> isNaN result
               then showMessage ''No solution found'' Error s
               else showMessage (label solveFor @ '' = '') Success
                      ((setVar solveFor (Some result) s)
                         \<lparr>lastComputed := Some result, lastComputedVar := Some solveFor\<rparr>)))"
  by (simp add: compute_def compute_on_def computeVariable_def intact_def Let_def
      split: option.splits)

section \<open>Arithmetic on finite numbers\<close>

lemma Fin_minus [simp]: "Fin a - Fin b = Fin (a - b)"
  by (simp add: minus_jsnum_def)

lemma NaN_minus_left [simp]: "NaN - y = NaN"
  by (simp add: minus_jsnum_def)

lemma NaN_minus_right [simp]: "x - NaN = NaN"
  by (cases x) (simp_all add: minus_jsnum_def)

lemma Fin_divide_nonzero: "b \<noteq> 0 \<Longrightarrow> Fin a / Fin b = Fin (a / b)"
  by simp

lemma is_int_of_nat [simp]: "is_int (real k)"
  by (simp add: is_int_def)

lemma is_int_numeral [simp]: "is_int (numeral w)"
  by (simp add: is_int_def)

lemma is_int_0 [simp]: "is_int 0"
  by (simp add: is_int_def)

lemma is_int_1 [simp]: "is_int 1"
  by (simp add: is_int_def)

section \<open>Future value and present value\<close>

lemma Math_pow_powr: "0 < x \<Longrightarrow> Math_pow (Fin x) (Fin y) = Fin (x powr y)"
proof -
  assume x: "0 < x"
  have "x powi \<lfloor>y\<rfloor> = x powr y" if "is_int y"
  proof -
    have e: "real_of_int \<lfloor>y\<rfloor> = y" using that by (simp add: is_int_def)
    have "x powr real_of_int \<lfloor>y\<rfloor> = x powi \<lfloor>y\<rfloor>"
      using powr_real_of_int'[of x "\<lfloor>y\<rfloor>"] x by simp
    then show ?thesis unfolding e by simp
  qed
  then show ?thesis using x by auto
qed

text \<open>
  C1. For every number of periods, periodic rate, present value, payment and timing
  flag, \<open>solveFV\<close> is \<open>pv * (1+i)^n + pmt * af(i, n, begin)\<close>, with the annuity factor
  of the specification: \<open>n\<close> when \<open>|i| < 1e-10\<close>, and otherwise \<open>((1+i)^n - 1)/i\<close>,
  multiplied by \<open>(1+i)\<close> when the timing is BEGIN. The equation holds for every
  JavaScript number, the non-finite ones included; on real numbers with \<open>1 + i > 0\<close>
  the result is the real number that the formula denotes.
\<close>

theorem solveFV_closed_form:
  "solveFV n i pv pmt isBegin
     = pv * Math_pow (Fin 1 + i) n + pmt * af_spec i n isBegin
   \<and> (0 < 1 + ir \<longrightarrow>
        solveFV (Fin nr) (Fin ir) (Fin pvr) (Fin pmtr) isBegin
          = Fin (pvr * (1 + ir) powr nr + pmtr * af_real ir nr isBegin))"
proof -
  have "solveFV (Fin nr) (Fin ir) (Fin pvr) (Fin pmtr) isBegin
          = Fin (pvr * (1 + ir) powr nr + pmtr * af_real ir nr isBegin)" if "0 < 1 + ir"
    using Math_pow_powr[OF that, of nr]
    by (auto simp add: solveFV_def annuityFactor_def af_real_def Let_def simp del: Math_pow.simps)
  then show ?thesis
    by (simp add: solveFV_def annuityFactor_def af_spec_def Let_def)
qed

theorem solveFV_closed_form_witness:
  "(0::real) < 1 + 1 / 10
   \<and> solveFV (Fin 2) (Fin (1 / 10)) (Fin 100) (Fin (- 10)) True = Fin (979 / 10)"
proof -
  have p: "(0::real) < 1 + 1 / 10" by simp
  have "((1::real) + 1 / 10) powr 2 = 121 / 100"
    by (simp add: power2_eq_square)
  then have v: "Fin (100 * (1 + 1 / 10) powr 2 + (- 10) * af_real (1 / 10) 2 True) = Fin (979 / 10)"
    by (simp add: af_real_def power2_eq_square)
  have e: "solveFV (Fin 2) (Fin (1 / 10)) (Fin 100) (Fin (- 10)) True
      = Fin (100 * (1 + 1 / 10) powr 2 + (- 10) * af_real (1 / 10) 2 True)"
    using p solveFV_closed_form[of "Fin 2" "Fin (1 / 10)" "Fin 100" "Fin (- 10)" True
        "1 / 10" 2 100 "- 10"]
    by blast
  show ?thesis
    unfolding e v using p by simp
qed

lemma Math_pow_nat: "Math_pow (Fin x) (Fin (real k)) = Fin (x ^ k)"
  by (simp add: power_int_of_nat[unfolded of_nat_def] del: of_nat_Suc)




section \<open>Amortization\<close>

lemma amort_loop_spec:
  "1 \<le> period \<Longrightarrow> period \<le> Suc p2 \<Longrightarrow>
   amort_loop i pmt b p1 p2 period (spec_balance i pv pmt b (period - 1)) tp ti
     = \<lparr>principal = foldl (+) tp (map (spec_principal i pv pmt b) [max period p1..<Suc p2]),
        interest = foldl (+) ti (map (spec_interest i pv pmt b) [max period p1..<Suc p2]),
        balance = spec_balance i pv pmt b p2\<rparr>"
proof (induction "Suc p2 - period" arbitrary: period tp ti)
  case 0
  then have "period = Suc p2" by simp
  then show ?case by (simp add: amort_loop.simps)
next
  case (Suc m)
  then have le: "period \<le> p2" by simp
  obtain q where q: "period = Suc q" using Suc.prems(1) by (cases period) auto
  have IH: "\<And>tp ti. amort_loop i pmt b p1 p2 (Suc period) (spec_balance i pv pmt b period) tp ti
     = \<lparr>principal = foldl (+) tp (map (spec_principal i pv pmt b) [max (Suc period) p1..<Suc p2]),
        interest = foldl (+) ti (map (spec_interest i pv pmt b) [max (Suc period) p1..<Suc p2]),
        balance = spec_balance i pv pmt b p2\<rparr>"
    using Suc.hyps(1)[of "Suc period"] Suc.hyps(2) le by simp
  show ?case
  proof (cases "p1 \<le> period")
    case True
    then have m: "max period p1 = period" "max (Suc period) p1 = Suc period" by simp_all
    have l: "[period..<Suc p2] = period # [Suc period..<Suc p2]"
      using le by (simp add: upt_conv_Cons del: upt_Suc)
    have step: "amort_loop i pmt b p1 p2 period (spec_balance i pv pmt b (period - 1)) tp ti
        = amort_loop i pmt b p1 p2 (Suc period) (spec_balance i pv pmt b period)
            (tp + spec_principal i pv pmt b period) (ti + spec_interest i pv pmt b period)"
      apply (subst amort_loop.simps)
      using le True
      apply (simp add: Let_def q spec_principal_def spec_interest_def
          del: upt_Suc)
      done
    show ?thesis
      unfolding m l step IH by simp
  next
    case False
    then have m: "max period p1 = p1" "max (Suc period) p1 = p1" by simp_all
    have step: "amort_loop i pmt b p1 p2 period (spec_balance i pv pmt b (period - 1)) tp ti
        = amort_loop i pmt b p1 p2 (Suc period) (spec_balance i pv pmt b period) tp ti"
      apply (subst amort_loop.simps)
      using le False
      apply (simp add: Let_def q del: upt_Suc)
      done
    show ?thesis
      unfolding m step IH ..
  qed
qed

lemma calculateAmort_results:
  assumes "N s \<noteq> None" "IY s = Some iy" "PV s = Some pv" "PMT s = Some pmt"
    and "\<not> py s \<le> Fin 0" "\<not> cy s \<le> Fin 0"
  shows "amortResults (calculateAmort s)
     = Some (amortize (getPeriodicRate iy (cy s) (py s)) pv pmt (amortP1 s) (amortP2 s) (BGN s))"
  using assms by (simp add: calculateAmort_def Let_def)

text \<open>
  C4. For a request with \<open>1 \<le> p1 \<le> p2\<close> the engine walks the balance from period 1
  through \<open>p2\<close> starting at \<open>pv\<close>, each period by the END or the BEGIN rule of the
  specification; it accumulates principal and interest over the periods \<open>p1..p2\<close> only,
  and reports the running balance after period \<open>p2\<close>, which does not depend on \<open>p1\<close>.
\<close>

theorem amortize_walks_from_period_one:
  assumes "1 \<le> p1" and "p1 \<le> p2"
  shows "amortize i pv pmt p1 p2 isBegin
     = \<lparr>principal = foldl (+) (Fin 0) (map (spec_principal i pv pmt isBegin) [p1..<Suc p2]),
        interest = foldl (+) (Fin 0) (map (spec_interest i pv pmt isBegin) [p1..<Suc p2]),
        balance = spec_balance i pv pmt isBegin p2\<rparr>"
  using amort_loop_spec[of 1 p2 i pmt isBegin p1 pv "Fin 0" "Fin 0"] assms
  by (simp add: amortize_def max_def)

theorem amortize_walks_witness:
  "(1::nat) \<le> 2 \<and> (2::nat) \<le> 3
   \<and> amortize (Fin (1 / 10)) (Fin 100) (Fin (- 20)) 2 3 False
      = \<lparr>principal = Fin (231 / 10), interest = Fin (169 / 10), balance = Fin (669 / 10)\<rparr>"
proof -
  have a: "(1::nat) \<le> 2" and b: "(2::nat) \<le> 3" by simp_all
  have l: "[2..<Suc 3] = [2, 3]" by (simp add: upt_rec)
  have s1: "spec_balance (Fin (1 / 10)) (Fin 100) (Fin (-20)) False (Suc 0) = Fin 90"
    by simp
  have s2: "spec_balance (Fin (1 / 10)) (Fin 100) (Fin (-20)) False 2 = Fin 79"
    by (simp add: numeral_2_eq_2)
  have s3: "spec_balance (Fin (1 / 10)) (Fin 100) (Fin (-20)) False 3 = Fin (669 / 10)"
    using s2 by (simp add: numeral_3_eq_3 numeral_2_eq_2)
  show ?thesis
    using amortize_walks_from_period_one[OF a b, of "Fin (1 / 10)" "Fin 100" "Fin (- 20)" False]
    by (simp add: l spec_principal_def spec_interest_def s1 s2 s3)
qed

lemma amort_loop_end_closed:
  "1 \<le> period \<Longrightarrow> period \<le> Suc p2 \<Longrightarrow>
   amort_loop (Fin i) (Fin pmt) False 1 p2 period (Fin b) (Fin tp) (Fin ti)
     = \<lparr>principal = Fin (tp + b - (b * (1 + i) ^ (Suc p2 - period) + pmt * (\<Sum>j<Suc p2 - period. (1 + i) ^ j))),
        interest = Fin (ti + (b * (1 + i) ^ (Suc p2 - period) + pmt * (\<Sum>j<Suc p2 - period. (1 + i) ^ j)) - b
                         - real (Suc p2 - period) * pmt),
        balance = Fin (b * (1 + i) ^ (Suc p2 - period) + pmt * (\<Sum>j<Suc p2 - period. (1 + i) ^ j))\<rparr>"
proof (induction "Suc p2 - period" arbitrary: period b tp ti)
  case 0
  then have "period = Suc p2" by simp
  then show ?case by (simp add: amort_loop.simps)
next
  case (Suc m)
  then have le: "period \<le> p2" by simp
  have m: "Suc p2 - period = Suc m" "Suc p2 - Suc period = m"
    using Suc.hyps(2) by simp_all
  have step: "amort_loop (Fin i) (Fin pmt) False 1 p2 period (Fin b) (Fin tp) (Fin ti)
      = amort_loop (Fin i) (Fin pmt) False 1 p2 (Suc period) (Fin (b + (b * i + pmt)))
          (Fin (tp + (- pmt - b * i))) (Fin (ti + b * i))"
    apply (subst amort_loop.simps)
    using le Suc.prems(1)
    apply (simp add: Let_def)
    done
  have IH: "amort_loop (Fin i) (Fin pmt) False 1 p2 (Suc period) (Fin (b + (b * i + pmt)))
          (Fin (tp + (- pmt - b * i))) (Fin (ti + b * i))
     = \<lparr>principal = Fin ((tp + (- pmt - b * i)) + (b + (b * i + pmt)) - ((b + (b * i + pmt)) * (1 + i) ^ m + pmt * (\<Sum>j<m. (1 + i) ^ j))),
        interest = Fin ((ti + b * i) + ((b + (b * i + pmt)) * (1 + i) ^ m + pmt * (\<Sum>j<m. (1 + i) ^ j)) - (b + (b * i + pmt))
                         - real m * pmt),
        balance = Fin ((b + (b * i + pmt)) * (1 + i) ^ m + pmt * (\<Sum>j<m. (1 + i) ^ j))\<rparr>"
  proof -
    have e1: "m = Suc p2 - Suc period" using m by simp
    have e2: "1 \<le> Suc period" by simp
    have e3: "Suc period \<le> Suc p2" using le by simp
    show ?thesis
      using Suc.hyps(1)[OF e1 e2 e3] unfolding m(2) .
  qed
  have B: "(b + (b * i + pmt)) * (1 + i) ^ m + pmt * (\<Sum>j<m. (1 + i) ^ j)
      = b * (1 + i) ^ Suc m + pmt * (\<Sum>j<Suc m. (1 + i) ^ j)"
    by (simp add: algebra_simps)
  show ?case
    unfolding step IH m B by (simp add: algebra_simps)
qed

lemma geometric_annuity:
  "i \<noteq> 0 \<Longrightarrow> (\<Sum>j<k. (1 + i) ^ j) = ((1 + i) ^ k - 1) / (i::real)"
  using geometric_sum[of "1 + i" k] by simp

lemma amortize_begin_balance_example:
  "solvePMT (Fin 1) (Fin (1 / 10)) (Fin 100) (Fin 0) True = Fin (- 100)
   \<and> balance (amortize (Fin (1 / 10)) (Fin 100) (Fin (- 100)) 1 1 True) = Fin 220"
  by (simp add: solvePMT_def annuityFactor_def amortize_def amort_loop.simps Let_def)

text \<open>
  C3, as the code has it. For a whole number of periods \<open>k \<ge> 1\<close>, END timing and a
  periodic rate that is zero or at least \<open>1e-10\<close> in magnitude: if
  \<open>pmt = solvePMT(k, i, pv, fv, END)\<close> is finite, the simulation over the window
  \<open>1..k\<close> pays a principal of \<open>pv - fv\<close> in total and ends at the balance \<open>fv\<close>.
\<close>

theorem amortize_end_conservation:
  assumes k: "1 \<le> k"
    and i: "i = 0 \<or> 1 / 10 ^ 10 \<le> \<bar>i\<bar>"
    and pmt: "solvePMT (Fin (real k)) (Fin i) (Fin pv) (Fin fv) False = Fin pmt"
  shows "amortize (Fin i) (Fin pv) (Fin pmt) 1 k False
     = \<lparr>principal = Fin (pv - fv), interest = Fin (fv - pv - real k * pmt), balance = Fin fv\<rparr>"
proof -
  define a where "a = (\<Sum>j<k. (1 + i) ^ j)"
  have af: "annuityFactor (Fin i) (Fin (real k)) False = Fin a"
  proof (cases "i = 0")
    case True
    then show ?thesis by (simp add: annuityFactor_def a_def)
  next
    case False
    with i have "\<not> \<bar>i\<bar> < 1 / 10 ^ 10" by simp
    then show ?thesis
      using False
      by (simp add: annuityFactor_def a_def geometric_annuity Math_pow_nat Let_def
          del: Math_pow.simps)
  qed
  have "a \<noteq> 0 \<and> pmt = (fv - pv * (1 + i) ^ k) / a"
    using pmt
    by (simp add: solvePMT_def af Math_pow_nat Let_def inf_of_sign_def
        del: Math_pow.simps split: if_splits)
  then have B: "pv * (1 + i) ^ k + pmt * a = fv"
    by (simp add: field_simps)
  show ?thesis
    using amort_loop_end_closed[of 1 k i pmt pv 0 0] k
    by (simp add: amortize_def a_def[symmetric] B)
qed

theorem amortize_end_conservation_witness:
  "(1::nat) \<le> 2 \<and> (1 / 10 ^ 10 \<le> \<bar>1 / 10 :: real\<bar>)
   \<and> solvePMT (Fin (real 2)) (Fin (1 / 10)) (Fin 100) (Fin 0) False = Fin (- (1210 / 21))
   \<and> amortize (Fin (1 / 10)) (Fin 100) (Fin (- (1210 / 21))) 1 2 False
       = \<lparr>principal = Fin (100 - 0), interest = Fin (0 - 100 - real 2 * (- (1210 / 21))),
          balance = Fin 0\<rparr>"
proof -
  have k: "(1::nat) \<le> 2" by simp
  have i: "(1 / 10 :: real) = 0 \<or> 1 / 10 ^ 10 \<le> \<bar>1 / 10 :: real\<bar>" by simp
  have p: "solvePMT (Fin (real 2)) (Fin (1 / 10)) (Fin 100) (Fin 0) False = Fin (- (1210 / 21))"
    by (simp add: solvePMT_def annuityFactor_def Let_def power2_eq_square)
  show ?thesis
    using k p amortize_end_conservation[OF k i p] by simp
qed

text \<open>
  C3 as stated fails: for a loan of 100 over two periods at 10 percent with \<open>fv = 0\<close>
  and END timing the payment is finite and the principal portions sum to \<open>+100\<close>,
  which is not \<open>-PV = -100\<close>.
\<close>

theorem amortize_principal_counterexample:
  "isFinite (solvePMT (Fin 2) (Fin (1 / 10)) (Fin 100) (Fin 0) False)
   \<and> principal (amortize (Fin (1 / 10)) (Fin 100)
        (solvePMT (Fin 2) (Fin (1 / 10)) (Fin 100) (Fin 0) False) 1 2 False) = Fin 100
   \<and> Fin 100 \<noteq> - Fin 100"
  by (simp add: solvePMT_def annuityFactor_def amortize_def amort_loop.simps Let_def
      power2_eq_square)


section \<open>Solving for N\<close>

text \<open>
  C8, as the code has it. For a periodic rate \<open>i\<close>, \<open>pv\<close>, \<open>pmt\<close> and \<open>fv\<close>:
  (1) when \<open>|i| < 1e-10\<close> the solver returns \<open>(fv - pv)/pmt\<close>, and fails (returns NaN)
  exactly when \<open>|pmt| < 1e-15\<close>; (2) when \<open>|i| \<ge> 1e-10\<close> and \<open>|pmt| < 1e-15\<close> it fails
  when \<open>|pv| < 1e-15\<close> or \<open>fv/pv \<le> 0\<close>, and otherwise returns
  \<open>Math.log(fv/pv) / Math.log(1+i)\<close>, which is \<open>ln(fv/pv)/ln(1+i)\<close> when \<open>1+i > 0\<close>,
  zero when \<open>1+i = 0\<close> and NaN when \<open>1+i < 0\<close>; (3) otherwise it delegates to
  \<open>solveNNumeric\<close>.
\<close>

theorem solveN_case_analysis:
  "solveN (Fin i) (Fin pv) (Fin pmt) (Fin fv) isBegin
     = (if \<bar>i\<bar> < 1 / 10 ^ 10 then
          (if \<bar>pmt\<bar> < 1 / 10 ^ 15 then NaN else Fin ((fv - pv) / pmt))
        else if \<bar>pmt\<bar> < 1 / 10 ^ 15 then
          (if \<bar>pv\<bar> < 1 / 10 ^ 15 \<or> fv / pv \<le> 0 then NaN
           else if 1 + i < 0 then NaN
           else if 1 + i = 0 then Fin 0
           else Fin (ln (fv / pv) / ln (1 + i)))
        else solveNNumeric (Fin i) (Fin pv) (Fin pmt) (Fin fv) isBegin)"
proof -
  have z: "\<not> \<bar>i\<bar> < 1 / 10 ^ 10 \<Longrightarrow> 0 < 1 + i \<Longrightarrow> ln (1 + i) \<noteq> 0"
    by auto
  have p: "\<not> \<bar>pmt\<bar> < 1 / 10 ^ 15 \<Longrightarrow> pmt \<noteq> 0"
    by auto
  have q: "\<not> \<bar>pv\<bar> < 1 / 10 ^ 15 \<Longrightarrow> pv \<noteq> 0"
    by auto
  show ?thesis
    using z p q by (auto simp add: solveN_def Let_def)
qed

text \<open>
  C8 as stated fails in case (2): at \<open>i = -2\<close>, \<open>pv = 1\<close>, \<open>pmt = 0\<close>, \<open>fv = 2\<close> neither
  \<open>|pv| < 1e-15\<close> nor \<open>fv/pv \<le> 0\<close> holds, and the solver returns NaN all the same.
\<close>

theorem solveN_fails_counterexample:
  "\<not> \<bar>Fin (- 2)\<bar> < Fin (1 / 10 ^ 10) \<and> \<bar>Fin 0\<bar> < Fin (1 / 10 ^ 15)
   \<and> \<not> \<bar>Fin 1\<bar> < Fin (1 / 10 ^ 15) \<and> \<not> Fin 2 / Fin 1 \<le> Fin 0
   \<and> solveN (Fin (- 2)) (Fin 1) (Fin 0) (Fin 2) False = NaN"
  by (simp add: solveN_def Let_def)

section \<open>Solving for I/Y\<close>


lemma in_range_Fin_iff [simp]: "in_range (Fin r) \<longleftrightarrow> - (99 / 100) < r \<and> r \<le> 10"
  by (simp add: in_range_def)
























section \<open>The two calls of solveIY\<close>



lemma Math_pow_zero: "Math_pow x (Fin 0) = Fin 1"
  by (cases x) simp_all

text \<open>
  With END timing the call of \<open>computeVariable\<close> gives 0 whatever the registers hold:
  \<open>py\<close> receives \<open>false\<close>, the exponent \<open>py / cy\<close> of the conversion is zero.
\<close>

lemma computeVariable_IY_end_mode:
  assumes "BGN s = False" and "py s = Fin p" and "p \<noteq> 0"
  shows "computeVariable_switch VarIY s = Fin 0"
  using assms by (simp add: solveIY_def Let_def Math_pow_zero)



section \<open>NPV at the IRR\<close>
















section \<open>CPT\<close>


lemma registers_showMessage [simp]: "registers (showMessage m k s) = registers s"
  by (simp add: registers_def showMessage_def)

lemma registers_clearMessage [simp]: "registers (clearMessage s) = registers s"
  by (simp add: registers_def clearMessage_def)

lemma message_showMessage [simp]: "message (showMessage m k s) = Some (k, m)"
  by (simp add: showMessage_def)



lemma positive_not_le_zero: "Fin 0 < x \<Longrightarrow> \<not> x \<le> Fin 0"
  by (cases x) simp_all

lemma compute_switch_cleared:
  "compute_switch v ((clearMessage s)\<lparr>rclMode := False\<rparr>) = compute_switch v s"
  by (cases v) (simp_all add: clearMessage_def)

lemma registers_cleared:
  "registers ((clearMessage s)\<lparr>rclMode := False\<rparr>) = registers s"
  by (simp add: registers_def clearMessage_def)

lemma blankVars_cleared:
  "blankVars ((clearMessage s)\<lparr>rclMode := False\<rparr>) = blankVars s"
  by (simp add: blankVars_def clearMessage_def)

lemma blankVars_cleared':
  "blankVars (s\<lparr>message := None, rclMode := False\<rparr>) = blankVars s"
  by (simp add: blankVars_def)

lemma getVar_setVar_same: "getVar (setVar v x s) v = x"
  by (cases v) simp_all



lemma loan_recompute_FV:
  "computeVariable VarFV ((clearMessage (loan_state\<lparr>lastComputedVar := Some VarFV\<rparr>))\<lparr>rclMode := False\<rparr>)
     = loan_state\<lparr>FV := Some (Fin (- 110)), lastComputed := Some (Fin (- 110)),
         lastComputedVar := Some VarFV, message := Some (Success, ''FV = '')\<rparr>"
  by (simp add: computeVariable_intact Let_def loan_state_def initial_state_def
      clearMessage_def showMessage_def getPeriodicRate_def solveFV_def annuityFactor_def)

text \<open>
  C7, as the code has it. For a state with valid frequencies (\<open>cy > 0\<close> and \<open>py > 0\<close>):
  with more than one of the five fields unset, \<open>compute\<close> shows the error
  "CLEAR ONE VARIABLE TO SOLVE" and assigns no field; with none unset and no variable
  computed before, it arms CPT with an info message and assigns no field; with none unset
  and a last computed variable, it recomputes that variable through \<open>computeVariable\<close>;
  with exactly one unset it solves for that field, stores a finite result and reports
  "No solution found" otherwise.
\<close>

theorem compute_blank_count:
  assumes c: "Fin 0 < cy s" and p: "Fin 0 < py s"
  shows "(1 < length (blankVars s) \<longrightarrow>
            message (compute s) = Some (Error, ''CLEAR ONE VARIABLE TO SOLVE'')
            \<and> registers (compute s) = registers s)
       \<and> (blankVars s = [] \<and> lastComputedVar s = None \<longrightarrow>
            message (compute s) = Some (Info, ''CPT -> PRESS VARIABLE TO SOLVE'')
            \<and> computeArmed (compute s) \<and> registers (compute s) = registers s)
       \<and> (blankVars s = [] \<and> lastComputedVar s = Some v \<longrightarrow>
            compute s = computeVariable v ((clearMessage s)\<lparr>rclMode := False\<rparr>))
       \<and> (blankVars s = [w] \<and> isFinite (compute_switch w s) \<longrightarrow>
            getVar (compute s) w = Some (compute_switch w s)
            \<and> lastComputedVar (compute s) = Some w
            \<and> isSuccess (message (compute s)))
       \<and> (blankVars s = [w] \<and> \<not> isFinite (compute_switch w s) \<longrightarrow>
            message (compute s) = Some (Error, ''No solution found'')
            \<and> registers (compute s) = registers s)"
proof -
  let ?s = "(clearMessage s)\<lparr>rclMode := False\<rparr>"
  have ok: "\<not> (py ?s \<le> Fin 0 \<or> cy ?s \<le> Fin 0)"
    using positive_not_le_zero[OF c] positive_not_le_zero[OF p]
    by (simp add: clearMessage_def)
  have many: "1 < length (blankVars s) \<Longrightarrow>
      compute s = showMessage ''CLEAR ONE VARIABLE TO SOLVE'' Error ?s"
    using ok by (auto simp add: compute_intact Let_def blankVars_cleared split: list.splits)
  have none: "blankVars s = [] \<Longrightarrow> lastComputedVar s = None \<Longrightarrow>
      compute s = showMessage ''CPT -> PRESS VARIABLE TO SOLVE'' Info (?s\<lparr>computeArmed := True\<rparr>)"
    using ok by (simp add: compute_intact Let_def blankVars_cleared' clearMessage_def)
  have last: "blankVars s = [] \<Longrightarrow> lastComputedVar s = Some v \<Longrightarrow>
      compute s = computeVariable v ?s"
    using ok by (simp add: compute_intact Let_def blankVars_cleared' clearMessage_def)
  have fin: "isFinite x \<Longrightarrow> \<not> isNaN x" for x by (cases x) simp_all
  have one_ok: "blankVars s = [w] \<Longrightarrow> isFinite (compute_switch w s) \<Longrightarrow>
      compute s = showMessage (label w @ '' = '') Success
                             ((setVar w (Some (compute_switch w s)) ?s)
                                \<lparr>lastComputed := Some (compute_switch w s), lastComputedVar := Some w\<rparr>)"
    using ok fin[of "compute_switch w s"]
    by (simp add: compute_intact Let_def blankVars_cleared compute_switch_cleared)
  have one_bad: "blankVars s = [w] \<Longrightarrow> \<not> isFinite (compute_switch w s) \<Longrightarrow>
      compute s = showMessage ''No solution found'' Error ?s"
    using ok
    by (simp add: compute_intact Let_def blankVars_cleared compute_switch_cleared)
  have g: "getVar (t\<lparr>lastComputed := a, lastComputedVar := b, message := m\<rparr>) w = getVar t w"
    for t a b m
    by (cases w) simp_all
  have A: "1 < length (blankVars s) \<longrightarrow>
            message (compute s) = Some (Error, ''CLEAR ONE VARIABLE TO SOLVE'')
            \<and> registers (compute s) = registers s"
    using many by (simp add: registers_cleared)
  have B: "blankVars s = [] \<and> lastComputedVar s = None \<longrightarrow>
            message (compute s) = Some (Info, ''CPT -> PRESS VARIABLE TO SOLVE'')
            \<and> computeArmed (compute s) \<and> registers (compute s) = registers s"
    using none by (simp add: registers_def showMessage_def clearMessage_def)
  have C: "blankVars s = [] \<and> lastComputedVar s = Some v \<longrightarrow>
            compute s = computeVariable v ((clearMessage s)\<lparr>rclMode := False\<rparr>)"
    using last by simp
  have D: "blankVars s = [w] \<and> isFinite (compute_switch w s) \<longrightarrow>
            getVar (compute s) w = Some (compute_switch w s)
            \<and> lastComputedVar (compute s) = Some w
            \<and> isSuccess (message (compute s))"
    using one_ok by (simp add: showMessage_def g getVar_setVar_same)
  have E: "blankVars s = [w] \<and> \<not> isFinite (compute_switch w s) \<longrightarrow>
            message (compute s) = Some (Error, ''No solution found'')
            \<and> registers (compute s) = registers s"
    using one_bad by (simp add: registers_cleared)
  show ?thesis
    using A B C D E by blast
qed

theorem compute_blank_count_witness:
  "Fin 0 < cy loan_state \<and> Fin 0 < py loan_state
   \<and> 1 < length (blankVars (loan_state\<lparr>N := None, IY := None\<rparr>))
   \<and> message (compute (loan_state\<lparr>N := None, IY := None\<rparr>))
       = Some (Error, ''CLEAR ONE VARIABLE TO SOLVE'')
   \<and> blankVars loan_state = [] \<and> lastComputedVar loan_state = None
   \<and> computeArmed (compute loan_state)
   \<and> registers (compute loan_state) = registers loan_state
   \<and> compute (loan_state\<lparr>lastComputedVar := Some VarFV\<rparr>)
       = computeVariable VarFV
           ((clearMessage (loan_state\<lparr>lastComputedVar := Some VarFV\<rparr>))\<lparr>rclMode := False\<rparr>)
   \<and> blankVars (loan_state\<lparr>FV := None\<rparr>) = [VarFV]
   \<and> compute_switch VarFV (loan_state\<lparr>FV := None\<rparr>) = Fin (- 110)
   \<and> getVar (compute (loan_state\<lparr>FV := None\<rparr>)) VarFV = Some (Fin (- 110))
   \<and> blankVars (loan_state\<lparr>N := None, IY := Some (Fin 0)\<rparr>) = [VarN]
   \<and> compute_switch VarN (loan_state\<lparr>N := None, IY := Some (Fin 0)\<rparr>) = NaN
   \<and> message (compute (loan_state\<lparr>N := None, IY := Some (Fin 0)\<rparr>))
       = Some (Error, ''No solution found'')"
proof -
  have f: "Fin 0 < cy t" "Fin 0 < py t"
    if "cy t = Fin 1" "py t = Fin 1" for t :: calc_state
    using that by simp_all
  have fr: "cy loan_state = Fin 1" "py loan_state = Fin 1"
    by (simp_all add: loan_state_def initial_state_def)
  have b2: "1 < length (blankVars (loan_state\<lparr>N := None, IY := None\<rparr>))"
    and b0: "blankVars loan_state = []" "lastComputedVar loan_state = None"
    and b0': "blankVars (loan_state\<lparr>lastComputedVar := Some VarFV\<rparr>) = []"
    and b1: "blankVars (loan_state\<lparr>FV := None\<rparr>) = [VarFV]"
    and b1': "blankVars (loan_state\<lparr>N := None, IY := Some (Fin 0)\<rparr>) = [VarN]"
    by (simp_all add: blankVars_def loan_state_def initial_state_def)
  have v1: "compute_switch VarFV (loan_state\<lparr>FV := None\<rparr>) = Fin (- 110)"
    by (simp add: loan_state_def initial_state_def getPeriodicRate_def solveFV_def
        annuityFactor_def)
  have v2: "compute_switch VarN (loan_state\<lparr>N := None, IY := Some (Fin 0)\<rparr>) = NaN"
    by (simp add: loan_state_def initial_state_def getPeriodicRate_def solveN_def)
  show ?thesis
    using fr b2 b0 b0' b1 b1' v1 v2
      compute_blank_count[OF f(1) f(2), of "loan_state\<lparr>N := None, IY := None\<rparr>" VarFV VarFV]
      compute_blank_count[OF f(1) f(2), of loan_state VarFV VarFV]
      compute_blank_count[OF f(1) f(2), of "loan_state\<lparr>lastComputedVar := Some VarFV\<rparr>" VarFV VarFV]
      compute_blank_count[OF f(1) f(2), of "loan_state\<lparr>FV := None\<rparr>" VarFV VarFV]
      compute_blank_count[OF f(1) f(2), of "loan_state\<lparr>N := None, IY := Some (Fin 0)\<rparr>" VarFV VarN]
    by simp
qed

text \<open>
  C7 as stated fails with zero fields unset: with all five registers set and FV the last
  computed variable, \<open>compute\<close> reports success and replaces FV = 0 by the recomputed
  value -110.
\<close>

theorem compute_zero_blank_counterexample:
  "Fin 0 < cy (loan_state\<lparr>lastComputedVar := Some VarFV\<rparr>)
   \<and> Fin 0 < py (loan_state\<lparr>lastComputedVar := Some VarFV\<rparr>)
   \<and> blankVars (loan_state\<lparr>lastComputedVar := Some VarFV\<rparr>) = []
   \<and> FV (loan_state\<lparr>lastComputedVar := Some VarFV\<rparr>) = Some (Fin 0)
   \<and> FV (compute (loan_state\<lparr>lastComputedVar := Some VarFV\<rparr>)) = Some (Fin (- 110))
   \<and> message (compute (loan_state\<lparr>lastComputedVar := Some VarFV\<rparr>)) = Some (Success, ''FV = '')"
proof -
  have b: "blankVars (loan_state\<lparr>lastComputedVar := Some VarFV\<rparr>) = []"
    by (simp add: blankVars_def loan_state_def initial_state_def)
  have c: "compute (loan_state\<lparr>lastComputedVar := Some VarFV\<rparr>)
    = computeVariable VarFV ((clearMessage (loan_state\<lparr>lastComputedVar := Some VarFV\<rparr>))\<lparr>rclMode := False\<rparr>)"
    by (simp add: compute_intact Let_def blankVars_def loan_state_def initial_state_def
        clearMessage_def)
  show ?thesis
    unfolding c loan_recompute_FV using b by (simp add: loan_state_def initial_state_def)
qed



end
